theory Spec2Isabelle
  imports Complex_Main
begin

section \<open>Curl-turbulence particle demo (src/main.js)\<close>

text \<open>
  JavaScript numbers are modelled as real numbers: in the definitions of the simulation
  every arithmetic operation of the source is the exact operation on \<open>real\<close>, so that
  rounding and overflow are outside that model. Two refinements of the curl evaluation stand
  beside it: one with a checked division, where a quotient that JavaScript cannot give as a
  finite number is a value of its own, and one in double arithmetic, where every operation
  is rounded to the nearest double. The simplex noise generator and \<open>Math.random\<close> are
  parameters: the noise is any function of three coordinates, the random source is the
  sequence of values that successive calls of \<open>Math.random\<close> return.
\<close>

subsection \<open>Constants and parameters (lines 11-25)\<close>

definition RADIUS :: real where
  "RADIUS = 50"

definition epsilon :: real where
  "epsilon = 0.0001"

text \<open>The object \<open>params\<close>; its field \<open>size\<close> is written \<open>size_param\<close> here, and
  \<open>reset\<close>, the function \<open>initParticles\<close> itself, is not a field of the record.\<close>

record params =
  count :: int
  size_param :: real
  windScale :: real
  speed :: real
  boundary :: real

definition default_params :: params where
  "default_params =
     \<lparr>count = 10000, size_param = 0.5, windScale = 0.04, speed = 4.0, boundary = 4.0\<rparr>"

subsection \<open>Vectors (three.js Vector3)\<close>

datatype vec3 = Vector3 (vx: real) (vy: real) (vz: real)

text \<open>Modelled from the spec: \<open>Vector3.length\<close> is three.js library code, absent from
  src/; the Euclidean length \<open>sqrt (x * x + y * y + z * z)\<close>.\<close>

definition vlength :: "vec3 \<Rightarrow> real" where
  "vlength v = sqrt (vx v * vx v + vy v * vy v + vz v * vz v)"

text \<open>Modelled from the spec: \<open>Vector3.multiplyScalar\<close> is three.js library code, absent
  from src/; scaling of every component.\<close>

definition multiplyScalar :: "vec3 \<Rightarrow> real \<Rightarrow> vec3" where
  "multiplyScalar v s = Vector3 (vx v * s) (vy v * s) (vz v * s)"

text \<open>Modelled from the spec: \<open>Vector3.divideScalar\<close> is three.js library code, absent
  from src/; multiplication by the reciprocal of the scalar. The only caller,
  \<open>normalize\<close>, never passes the scalar 0, where the reciprocal of HOL is 0 and that of
  JavaScript is \<open>Infinity\<close>; the checked variant further down keeps the two apart.\<close>

definition divideScalar :: "vec3 \<Rightarrow> real \<Rightarrow> vec3" where
  "divideScalar v s = multiplyScalar v (1 / s)"

text \<open>Modelled from the spec: \<open>Vector3.normalize\<close> is three.js library code, absent from
  src/. The spec asks for normalization to unit length with the zero vector as the fallback
  of a degenerate input; the library does so by dividing by \<open>length() || 1\<close>, that is by 1
  when the length is 0.\<close>

definition normalize_vec :: "vec3 \<Rightarrow> vec3" where
  "normalize_vec v = divideScalar v (if vlength v = 0 then 1 else vlength v)"

text \<open>Modelled from the spec: \<open>Vector3.addScaledVector\<close> is three.js library code, absent
  from src/; the scaled accumulation \<open>p += v * s\<close>.\<close>

definition addScaledVector :: "vec3 \<Rightarrow> vec3 \<Rightarrow> real \<Rightarrow> vec3" where
  "addScaledVector p v s = Vector3 (vx p + vx v * s) (vy p + vy v * s) (vz p + vz v * s)"

text \<open>Modelled from the spec: \<open>Vector3.setLength\<close> is three.js library code, absent from
  src/; \<open>normalize\<close> followed by \<open>multiplyScalar\<close>, the spec's
  \<open>position = normalize(position) * (R - margin)\<close>.\<close>

definition setLength :: "vec3 \<Rightarrow> real \<Rightarrow> vec3" where
  "setLength v l = multiplyScalar (normalize_vec v) l"

subsection \<open>Curl noise (lines 67-77)\<close>

type_synonym noise = "real \<Rightarrow> real \<Rightarrow> real \<Rightarrow> real"

text \<open>The local sampler \<open>n\<close> of \<open>curlNoise\<close> (line 69).\<close>

definition n_sample :: "noise \<Rightarrow> params \<Rightarrow> real \<Rightarrow> real \<Rightarrow> real \<Rightarrow> real" where
  "n_sample noise3D ps xi yi zi =
     noise3D (xi * windScale ps) (yi * windScale ps) (zi * windScale ps)"

text \<open>The vector of line 76 before \<open>normalize\<close> is applied to it.\<close>

definition curlRaw :: "noise \<Rightarrow> params \<Rightarrow> real \<Rightarrow> real \<Rightarrow> real \<Rightarrow> vec3" where
  "curlRaw noise3D ps x y z =
     (let n = n_sample noise3D ps;
          dx = (n (x + epsilon) y z - n (x - epsilon) y z) / (2 * epsilon);
          dy = (n x (y + epsilon) z - n x (y - epsilon) z) / (2 * epsilon);
          dz = (n x y (z + epsilon) - n x y (z - epsilon)) / (2 * epsilon)
      in Vector3 (dy - dz) (dz - dx) (dx - dy))"

definition curlNoise :: "noise \<Rightarrow> params \<Rightarrow> real \<Rightarrow> real \<Rightarrow> real \<Rightarrow> vec3" where
  "curlNoise noise3D ps x y z = normalize_vec (curlRaw noise3D ps x y z)"

subsection \<open>Curl noise with a checked division\<close>

text \<open>A division of JavaScript by zero gives \<open>Infinity\<close> or \<open>NaN\<close>, and the products
  that follow are no finite numbers either, where the division of HOL gives 0. The checked
  division is \<open>None\<close> there.\<close>

definition js_divide :: "real \<Rightarrow> real \<Rightarrow> real option" where
  "js_divide a b = (if b = 0 then None else Some (a / b))"

text \<open>Modelled from the spec: \<open>Vector3.divideScalar\<close> as above, three.js library code
  absent from src/, with the reciprocal taken by the checked division.\<close>

definition divideScalar_checked :: "vec3 \<Rightarrow> real \<Rightarrow> vec3 option" where
  "divideScalar_checked v s =
     (case js_divide 1 s of None \<Rightarrow> None | Some r \<Rightarrow> Some (multiplyScalar v r))"

text \<open>Modelled from the spec: \<open>Vector3.normalize\<close> as above, three.js library code
  absent from src/, with the fallback of the spec for a vector of length 0 (the library
  divides by \<open>length() || 1\<close>).\<close>

definition normalize_checked :: "vec3 \<Rightarrow> vec3 option" where
  "normalize_checked v = divideScalar_checked v (if vlength v = 0 then 1 else vlength v)"

text \<open>Lines 69-76 and line 76 with \<open>normalize\<close>, every division checked.\<close>

definition curlRaw_checked :: "noise \<Rightarrow> params \<Rightarrow> real \<Rightarrow> real \<Rightarrow> real \<Rightarrow> vec3 option" where
  "curlRaw_checked noise3D ps x y z =
     (let n = n_sample noise3D ps
      in case js_divide (n (x + epsilon) y z - n (x - epsilon) y z) (2 * epsilon) of
           None \<Rightarrow> None
         | Some dx \<Rightarrow>
            (case js_divide (n x (y + epsilon) z - n x (y - epsilon) z) (2 * epsilon) of
               None \<Rightarrow> None
             | Some dy \<Rightarrow>
                (case js_divide (n x y (z + epsilon) - n x y (z - epsilon)) (2 * epsilon) of
                   None \<Rightarrow> None
                 | Some dz \<Rightarrow> Some (Vector3 (dy - dz) (dz - dx) (dx - dy)))))"

definition curlNoise_checked :: "noise \<Rightarrow> params \<Rightarrow> real \<Rightarrow> real \<Rightarrow> real \<Rightarrow> vec3 option" where
  "curlNoise_checked noise3D ps x y z =
     (case curlRaw_checked noise3D ps x y z of None \<Rightarrow> None | Some v \<Rightarrow> normalize_checked v)"

subsection \<open>Curl noise in double arithmetic\<close>

text \<open>Rounding to the nearest integer, a tie to the even one.\<close>

definition round_even :: "real \<Rightarrow> int" where
  "round_even r =
     (let f = \<lfloor>r\<rfloor>
      in if r - of_int f < 1 / 2 then f
         else if 1 / 2 < r - of_int f then f + 1
         else if even f then f else f + 1)"

text \<open>The double nearest to a real number: a significand of 53 bits, rounded to nearest
  with ties to even. The range of the exponent is not bounded: overflow and subnormal
  numbers are left out.\<close>

definition fl :: "real \<Rightarrow> real" where
  "fl x =
     (if x = 0 then 0
      else (let u = power_int 2 (\<lfloor>log 2 \<bar>x\<bar>\<rfloor> - 52)
            in of_int (round_even (x / u)) * u))"

text \<open>The literal \<open>0.0001\<close> of line 15 as a double.\<close>

definition epsilon_double :: real where
  "epsilon_double = fl epsilon"

text \<open>Line 69 in double arithmetic. The noise and the fields of \<open>params\<close> are taken to
  hold doubles.\<close>

definition n_sample_double :: "noise \<Rightarrow> params \<Rightarrow> real \<Rightarrow> real \<Rightarrow> real \<Rightarrow> real" where
  "n_sample_double noise3D ps xi yi zi =
     noise3D (fl (xi * windScale ps)) (fl (yi * windScale ps)) (fl (zi * windScale ps))"

text \<open>Lines 71-73 in double arithmetic: the central differences \<open>dx\<close>, \<open>dy\<close>, \<open>dz\<close>.\<close>

definition differences_double ::
  "noise \<Rightarrow> params \<Rightarrow> real \<Rightarrow> real \<Rightarrow> real \<Rightarrow> real \<times> real \<times> real" where
  "differences_double noise3D ps x y z =
     (let n = n_sample_double noise3D ps;
          e = epsilon_double;
          dx = fl (fl (n (fl (x + e)) y z - n (fl (x - e)) y z) / fl (2 * e));
          dy = fl (fl (n x (fl (y + e)) z - n x (fl (y - e)) z) / fl (2 * e));
          dz = fl (fl (n x y (fl (z + e)) - n x y (fl (z - e))) / fl (2 * e))
      in (dx, dy, dz))"

text \<open>The vector of line 76 in double arithmetic, before \<open>normalize\<close>.\<close>

definition curlRaw_double :: "noise \<Rightarrow> params \<Rightarrow> real \<Rightarrow> real \<Rightarrow> real \<Rightarrow> vec3" where
  "curlRaw_double noise3D ps x y z =
     (case differences_double noise3D ps x y z of
        (dx, dy, dz) \<Rightarrow> Vector3 (fl (dy - dz)) (fl (dz - dx)) (fl (dx - dy)))"

subsection \<open>Animation loop (lines 134-167)\<close>

text \<open>Lines 143-150: the velocity from the curl field and the forward-Euler advance.\<close>

definition advance :: "noise \<Rightarrow> params \<Rightarrow> real \<Rightarrow> vec3 \<Rightarrow> vec3" where
  "advance noise3D ps dt p =
     (let noiseAmp =
            noise3D (vx p * windScale ps) (vy p * windScale ps) (vz p * windScale ps) * 0.5 + 0.5;
          v = multiplyScalar (curlNoise noise3D ps (vx p) (vy p) (vz p)) (speed ps * noiseAmp)
      in addScaledVector p v dt)"

text \<open>Lines 155-156: the soft push of a particle that is outside the radius.\<close>

definition soft_push :: "params \<Rightarrow> real \<Rightarrow> vec3 \<Rightarrow> vec3" where
  "soft_push ps dt p =
     (let len = vlength p;
          push = (len - RADIUS) * boundary ps
      in addScaledVector p (normalize_vec p) (- push * dt))"

text \<open>Lines 153-158: the boundary force, with the hard clamp of line 157.\<close>

definition boundary_force :: "params \<Rightarrow> real \<Rightarrow> vec3 \<Rightarrow> vec3" where
  "boundary_force ps dt p =
     (if vlength p > RADIUS then
        (let p1 = soft_push ps dt p
         in if vlength p1 > RADIUS then setLength p1 (RADIUS - 0.001) else p1)
      else p)"

text \<open>The body of the loop of \<open>animate\<close> for one particle (lines 140-158).\<close>

definition animate_step :: "noise \<Rightarrow> params \<Rightarrow> real \<Rightarrow> vec3 \<Rightarrow> vec3" where
  "animate_step noise3D ps dt p = boundary_force ps dt (advance noise3D ps dt p)"

text \<open>One frame: the loop over all positions (line 139).\<close>

definition animate :: "noise \<Rightarrow> params \<Rightarrow> real \<Rightarrow> vec3 list \<Rightarrow> vec3 list" where
  "animate noise3D ps dt positions = map (animate_step noise3D ps dt) positions"

subsection \<open>Reset (lines 80-127)\<close>

datatype color = Color (cr: real) (cg: real) (cb: real)

text \<open>Lines 12-13: \<open>0xffffff\<close> and \<open>0xff0000\<close> as red, green and blue in \<open>[0, 1]\<close>.\<close>

definition COLOR_CENTER :: color where
  "COLOR_CENTER = Color 1 1 1"

definition COLOR_EDGE :: color where
  "COLOR_EDGE = Color 1 0 0"

text \<open>Modelled from the spec: \<open>Color.lerp\<close> is three.js library code, absent from src/;
  the linear interpolation of every channel towards the other colour.\<close>

definition lerp :: "color \<Rightarrow> color \<Rightarrow> real \<Rightarrow> color" where
  "lerp c e alpha =
     Color (cr c + (cr e - cr c) * alpha) (cg c + (cg e - cg c) * alpha)
           (cb c + (cb e - cb c) * alpha)"

text \<open>Modelled from the spec: \<open>clampScalar\<close> is three.js library code, absent from src/;
  every channel is clamped to the range between the two scalars, the spec's
  "clamped to a valid color range".\<close>

definition clampScalar :: "color \<Rightarrow> real \<Rightarrow> real \<Rightarrow> color" where
  "clampScalar c minVal maxVal =
     Color (max minVal (min maxVal (cr c))) (max minVal (min maxVal (cg c)))
           (max minVal (min maxVal (cb c)))"

text \<open>The random source: \<open>rnd k\<close> is the value of the \<open>k\<close>-th call of \<open>Math.random\<close>
  since the reset began. The functions below pass the index of the next call along.\<close>

type_synonym random = "nat \<Rightarrow> real"

text \<open>Lines 100-104: one candidate point, from three calls of \<open>Math.random\<close>.\<close>

definition candidate :: "random \<Rightarrow> nat \<Rightarrow> vec3" where
  "candidate rnd k =
     Vector3 ((rnd k * 2 - 1) * RADIUS) ((rnd (k + 1) * 2 - 1) * RADIUS)
             ((rnd (k + 2) * 2 - 1) * RADIUS)"

text \<open>Lines 99-105: the \<open>do ... while\<close> loop of the rejection sampling. It need not end:
  \<open>None\<close> is the loop that never accepts. The result is the accepted point and the
  index of the next call of \<open>Math.random\<close>.\<close>

partial_function (option) sample_point :: "random \<Rightarrow> nat \<Rightarrow> (vec3 \<times> nat) option" where
  "sample_point rnd k =
     (let p = candidate rnd k
      in if vlength p > RADIUS then sample_point rnd (k + 3) else Some (p, k + 3))"

text \<open>Lines 115-121: the colour of a particle, from three more calls of \<open>Math.random\<close>.\<close>

definition particle_color :: "random \<Rightarrow> nat \<Rightarrow> vec3 \<Rightarrow> color" where
  "particle_color rnd k p =
     (let t = vlength p / RADIUS;
          c = lerp COLOR_CENTER COLOR_EDGE t;
          c1 = Color (cr c + (rnd k - 0.5) * 0.1) (cg c + (rnd (k + 1) - 0.5) * 0.1)
                     (cb c + (rnd (k + 2) - 0.5) * 0.1)
      in clampScalar c1 0 1)"

text \<open>What a reset builds: the array \<open>positions\<close> and the colours given to
  \<open>setColorAt\<close>, in the order of the instances.\<close>

record particles =
  positions :: "vec3 list"
  instanceColor :: "color list"

text \<open>Lines 96-124: the loop \<open>for (let i = 0; i < params.count; i++)\<close>. The disposal
  and the construction of the mesh (lines 82-93), the update flag and \<open>scene.add\<close>
  (lines 125-126) are calls into the rendering library with no counterpart here. With a
  count of 0 or less those calls fail in the library (line 92 asks for a buffer of negative
  length, line 125 finds no instance colours); the model is that of a reset with a count of
  at least 1.\<close>

function init_loop :: "random \<Rightarrow> params \<Rightarrow> int \<Rightarrow> nat \<Rightarrow> particles \<Rightarrow> particles option" where
  "init_loop rnd ps i k st =
     (if i < count ps then
        (case sample_point rnd k of
           None \<Rightarrow> None
         | Some (p, k1) \<Rightarrow>
             init_loop rnd ps (i + 1) (k1 + 3)
               (st\<lparr>positions := positions st @ [p],
                   instanceColor := instanceColor st @ [particle_color rnd k1 p]\<rparr>))
      else Some st)"
  by pat_completeness auto
termination
  by (relation "measure (\<lambda>(rnd, ps, i, k, st). nat (count ps - i))") auto

declare init_loop.simps [simp del]

definition initParticles :: "random \<Rightarrow> params \<Rightarrow> particles option" where
  "initParticles rnd ps = init_loop rnd ps 0 0 \<lparr>positions = [], instanceColor = []\<rparr>"

text \<open>A candidate that the rejection loop accepts, and a random source with which every
  rejection loop ends: from every index on, some later candidate of the loop is accepted.\<close>

definition accepted :: "random \<Rightarrow> nat \<Rightarrow> bool" where
  "accepted rnd k = (\<not> vlength (candidate rnd k) > RADIUS)"

definition fair :: "random \<Rightarrow> bool" where
  "fair rnd = (\<forall>k. \<exists>m. accepted rnd (k + 3 * m))"

subsection \<open>Concrete inputs\<close>

definition noise_zero :: noise where
  "noise_zero a b c = 0"

definition noise_x :: noise where
  "noise_x a b c = a"

definition rnd_half :: random where
  "rnd_half k = 1 / 2"

definition params_one :: params where
  "params_one = default_params\<lparr>count := 1\<rparr>"

definition params_5000 :: params where
  "params_5000 = default_params\<lparr>count := 5000\<rparr>"


text \<open>The noise \<open>(a, b, c) => b / 64 + c / 4\<close> in double arithmetic, and the default
  parameters as doubles: \<open>0.04\<close> is rounded, the other fields are doubles as they are.\<close>

definition noise_tilt :: noise where
  "noise_tilt a b c = fl (fl (b / 64) + fl (c / 4))"

definition params_double :: params where
  "params_double = default_params\<lparr>windScale := fl 0.04\<rparr>"

section \<open>Properties\<close>

subsection \<open>Lengths of vectors\<close>

lemma vlength_nonneg: "0 \<le> vlength v"
  by (simp add: vlength_def)

lemma vlength_zero_iff: "vlength v = 0 \<longleftrightarrow> v = Vector3 0 0 0"
  by (cases v) (auto simp: vlength_def add_nonneg_eq_0_iff)

lemma vlength_axis: "vlength (Vector3 a 0 0) = \<bar>a\<bar>"
  by (simp add: vlength_def)

lemma vlength_multiplyScalar: "vlength (multiplyScalar v s) = \<bar>s\<bar> * vlength v"
proof -
  have "vx v * s * (vx v * s) + vy v * s * (vy v * s) + vz v * s * (vz v * s)
        = s\<^sup>2 * (vx v * vx v + vy v * vy v + vz v * vz v)"
    by (simp add: power2_eq_square algebra_simps)
  then show ?thesis
    by (simp add: vlength_def multiplyScalar_def real_sqrt_mult)
qed

lemma vlength_normalize_vec: "vlength v \<noteq> 0 \<Longrightarrow> vlength (normalize_vec v) = 1"
  using vlength_nonneg [of v]
  by (simp add: normalize_vec_def divideScalar_def vlength_multiplyScalar)

lemma normalize_vec_zero: "normalize_vec (Vector3 0 0 0) = Vector3 0 0 0"
  by (simp add: normalize_vec_def divideScalar_def multiplyScalar_def)

lemma normalize_vec_axis: "a \<noteq> 0 \<Longrightarrow> normalize_vec (Vector3 a 0 0) = Vector3 (a / \<bar>a\<bar>) 0 0"
  by (simp add: normalize_vec_def divideScalar_def multiplyScalar_def vlength_axis)

lemma vlength_setLength: "vlength v \<noteq> 0 \<Longrightarrow> vlength (setLength v l) = \<bar>l\<bar>"
  by (simp add: setLength_def vlength_multiplyScalar vlength_normalize_vec)

lemma addScaledVector_zero: "addScaledVector p v 0 = p"
  by (cases p) (simp add: addScaledVector_def)

subsection \<open>The boundary force\<close>

lemma soft_push_scale:
  assumes "vlength p \<noteq> 0"
  shows "soft_push ps dt p =
         multiplyScalar p (1 - (vlength p - RADIUS) * boundary ps * dt / vlength p)"
  using assms
  by (cases p) (simp add: soft_push_def Let_def normalize_vec_def divideScalar_def
      multiplyScalar_def addScaledVector_def algebra_simps)

lemma vlength_soft_push:
  assumes "vlength p \<noteq> 0"
  shows "vlength (soft_push ps dt p) = \<bar>vlength p - (vlength p - RADIUS) * boundary ps * dt\<bar>"
proof -
  have pos: "0 < vlength p" using assms vlength_nonneg [of p] by simp
  have "\<bar>1 - (vlength p - RADIUS) * boundary ps * dt / vlength p\<bar> * vlength p
        = \<bar>(1 - (vlength p - RADIUS) * boundary ps * dt / vlength p) * vlength p\<bar>"
    using pos by (simp add: abs_mult)
  also have "(1 - (vlength p - RADIUS) * boundary ps * dt / vlength p) * vlength p
        = vlength p - (vlength p - RADIUS) * boundary ps * dt"
    using pos by (simp add: field_simps)
  finally show ?thesis
    by (simp add: soft_push_scale [OF assms] vlength_multiplyScalar)
qed

lemma soft_push_zero_dt: "soft_push ps 0 p = p"
  by (simp add: soft_push_def Let_def addScaledVector_zero)

lemma vlength_boundary_force: "vlength (boundary_force ps dt p) \<le> RADIUS"
proof (cases "vlength p > RADIUS")
  case False
  then show ?thesis by (simp add: boundary_force_def)
next
  case outside: True
  show ?thesis
  proof (cases "vlength (soft_push ps dt p) > RADIUS")
    case False
    with outside show ?thesis by (simp add: boundary_force_def Let_def)
  next
    case True
    then have "vlength (soft_push ps dt p) \<noteq> 0" by (simp add: RADIUS_def)
    then have "vlength (setLength (soft_push ps dt p) (RADIUS - 0.001)) = \<bar>RADIUS - 0.001\<bar>"
      by (rule vlength_setLength)
    with outside True show ?thesis by (simp add: boundary_force_def Let_def RADIUS_def)
  qed
qed

lemma advance_zero_dt: "advance noise3D ps 0 p = p"
  by (simp add: advance_def Let_def addScaledVector_zero)

lemma curlRaw_noise_zero: "curlRaw noise_zero ps x y z = Vector3 0 0 0"
  by (simp add: curlRaw_def n_sample_def noise_zero_def Let_def)

lemma advance_noise_zero: "advance noise_zero ps dt p = p"
  by (cases p)
     (simp add: advance_def Let_def curlNoise_def curlRaw_noise_zero normalize_vec_zero
       multiplyScalar_def addScaledVector_def)

lemma soft_push_example: "soft_push default_params 0.016 (Vector3 100 0 0) = Vector3 96.8 0 0"
  by (simp add: soft_push_def Let_def vlength_axis normalize_vec_axis addScaledVector_def
      RADIUS_def default_params_def)

lemma boundary_force_example:
  "boundary_force default_params 0.016 (Vector3 100 0 0) = Vector3 49.999 0 0"
proof -
  have "boundary_force default_params 0.016 (Vector3 100 0 0) =
        (if vlength (Vector3 100 0 0) > RADIUS then
           (let p1 = Vector3 96.8 0 0
            in if vlength p1 > RADIUS then setLength p1 (RADIUS - 0.001) else p1)
         else Vector3 100 0 0)"
    by (simp only: boundary_force_def soft_push_example)
  then show ?thesis
    by (simp add: Let_def vlength_axis RADIUS_def setLength_def normalize_vec_axis
        multiplyScalar_def)
qed

lemma animate_step_example:
  "animate_step noise_zero default_params 0.016 (Vector3 100 0 0) = Vector3 49.999 0 0"
  by (simp only: animate_step_def advance_noise_zero boundary_force_example)

subsection \<open>Containment\<close>

text \<open>
  C1, containment invariant: whatever the noise, the parameters, the elapsed time and the
  positions at the start of a frame are, every position that a frame of \<open>animate\<close> leaves
  behind is at distance at most \<open>RADIUS = 50\<close> from the origin (so also within any small
  tolerance above it).
\<close>

theorem containment_invariant:
  "p \<in> set (animate noise3D ps dt pts) \<Longrightarrow> vlength p \<le> RADIUS"
  by (auto simp: animate_def animate_step_def vlength_boundary_force)

theorem containment_invariant_witness:
  "Vector3 49.999 0 0 \<in> set (animate noise_zero default_params 0.016 [Vector3 100 0 0])
   \<and> vlength (Vector3 49.999 0 0) \<le> RADIUS"
proof -
  have mem: "Vector3 49.999 0 0 \<in> set (animate noise_zero default_params 0.016 [Vector3 100 0 0])"
    by (simp only: animate_def list.map animate_step_example) simp
  from mem containment_invariant [OF mem] show ?thesis by simp
qed

subsection \<open>Curl noise\<close>

text \<open>
  C2, curl normalization: wherever the raw finite-difference vector
  \<open>(dy - dz, dz - dx, dx - dy)\<close> has a length other than zero, the vector that
  \<open>curlNoise\<close> returns has length exactly 1.
\<close>

theorem curl_normalization:
  "vlength (curlRaw noise3D ps x y z) \<noteq> 0 \<Longrightarrow> vlength (curlNoise noise3D ps x y z) = 1"
  by (simp add: curlNoise_def vlength_normalize_vec)

theorem curl_normalization_witness:
  "vlength (curlRaw noise_x default_params 0 0 0) \<noteq> 0
   \<and> vlength (curlNoise noise_x default_params 0 0 0) = 1"
proof -
  have "curlRaw noise_x default_params 0 0 0 \<noteq> Vector3 0 0 0"
    by (simp add: curlRaw_def n_sample_def noise_x_def Let_def epsilon_def default_params_def)
  then have ne: "vlength (curlRaw noise_x default_params 0 0 0) \<noteq> 0"
    by (simp add: vlength_zero_iff)
  from ne curl_normalization [OF ne] show ?thesis by simp
qed

lemma curlRaw_checked_eq: "curlRaw_checked noise3D ps x y z = Some (curlRaw noise3D ps x y z)"
  by (simp add: curlRaw_checked_def curlRaw_def js_divide_def Let_def epsilon_def)

lemma normalize_checked_eq: "normalize_checked v = Some (normalize_vec v)"
  by (simp add: normalize_checked_def normalize_vec_def divideScalar_checked_def
      divideScalar_def js_divide_def)

text \<open>Without the fallback the zero vector would be divided by its length 0.\<close>

lemma unguarded_division_undefined:
  "divideScalar_checked (Vector3 0 0 0) (vlength (Vector3 0 0 0)) = None"
  by (simp add: divideScalar_checked_def js_divide_def vlength_axis)

text \<open>
  C7, degenerate gradient: at every input point the curl evaluation divides by nothing
  that is zero, so that it returns a vector of finite numbers and no not-a-number value,
  the vector of \<open>curlNoise\<close>; and when the raw finite-difference vector has length
  exactly zero, this vector is the zero vector, the fallback of the normalization.
\<close>

theorem degenerate_gradient_safe:
  "curlNoise_checked noise3D ps x y z = Some (curlNoise noise3D ps x y z)
   \<and> (vlength (curlRaw noise3D ps x y z) = 0 \<longrightarrow>
        curlNoise_checked noise3D ps x y z = Some (Vector3 0 0 0))"
  by (simp add: curlNoise_checked_def curlRaw_checked_eq normalize_checked_eq curlNoise_def
      vlength_zero_iff normalize_vec_zero)

theorem degenerate_gradient_safe_witness:
  "vlength (curlRaw noise_zero default_params 1 2 3) = 0
   \<and> curlNoise_checked noise_zero default_params 1 2 3 = Some (Vector3 0 0 0)"
proof -
  have z: "vlength (curlRaw noise_zero default_params 1 2 3) = 0"
    by (simp add: curlRaw_noise_zero vlength_axis)
  from z degenerate_gradient_safe [of noise_zero default_params 1 2 3] show ?thesis
    by blast
qed

subsection \<open>Rounding to doubles\<close>

lemma round_even_error: "\<bar>of_int (round_even r) - r\<bar> \<le> 1 / 2"
  unfolding round_even_def Let_def by (auto simp: abs_if) linarith+

lemma round_even_eqI:
  assumes "\<bar>r - of_int m\<bar> < 1 / 2"
  shows "round_even r = m"
proof -
  have "\<lfloor>r\<rfloor> = m \<or> \<lfloor>r\<rfloor> = m - 1"
    using assms by (auto simp: abs_if split: if_splits) linarith+
  then show ?thesis
  proof
    assume f: "\<lfloor>r\<rfloor> = m"
    with assms have "r - of_int m < 1 / 2" by (simp add: abs_if split: if_splits)
    with f show ?thesis by (simp add: round_even_def)
  next
    assume f: "\<lfloor>r\<rfloor> = m - 1"
    have "of_int m \<le> r + 1" "r < of_int m"
      using f by (simp_all add: floor_eq_iff)
    with assms have "1 / 2 < r - of_int (m - 1)" by (simp add: abs_if split: if_splits)
    with f show ?thesis by (simp add: round_even_def)
  qed
qed

lemma floor_log2_eqI:
  assumes "power_int 2 e \<le> \<bar>x\<bar>" and "\<bar>x\<bar> < power_int 2 (e + 1)"
  shows "\<lfloor>log 2 \<bar>x\<bar>\<rfloor> = e"
proof -
  have pos: "0 < \<bar>x\<bar>" using assms(1) zero_less_power_int [of "2 :: real" e] by linarith
  have "2 powr real_of_int e \<le> \<bar>x\<bar>" using assms(1) by (simp add: powr_real_of_int')
  then have lo: "real_of_int e \<le> log 2 \<bar>x\<bar>" using pos by (simp add: le_log_iff)
  have "\<bar>x\<bar> < 2 powr real_of_int (e + 1)"
    using assms(2) powr_real_of_int' [of 2 "e + 1"] by simp
  then have hi: "log 2 \<bar>x\<bar> < real_of_int (e + 1)"
    using pos log_less_iff [of 2 "\<bar>x\<bar>" "real_of_int (e + 1)"] by simp
  from lo hi show ?thesis by (simp add: floor_eq_iff)
qed

text \<open>The value of \<open>fl\<close> at a number whose exponent \<open>e\<close> and rounded significand \<open>m\<close>
  are known.\<close>

lemma fl_eqI:
  assumes "power_int 2 e \<le> \<bar>x\<bar>" and "\<bar>x\<bar> < power_int 2 (e + 1)"
    and "\<bar>x / power_int 2 (e - 52) - of_int m\<bar> < 1 / 2"
    and "y = of_int m * power_int 2 (e - 52)"
  shows "fl x = y"
proof -
  have "0 < \<bar>x\<bar>" using assms(1) zero_less_power_int [of "2 :: real" e] by linarith
  then have "x \<noteq> 0" by auto
  moreover have "\<lfloor>log 2 \<bar>x\<bar>\<rfloor> = e" using assms(1,2) by (rule floor_log2_eqI)
  moreover have "round_even (x / power_int 2 (e - 52)) = m" using assms(3) by (rule round_even_eqI)
  ultimately show ?thesis using assms(4) by (simp add: fl_def)
qed

lemma fl_zero: "fl 0 = 0"
  by (simp add: fl_def)

text \<open>The relative error of a rounding is at most \<open>1 / 2 ^ 53\<close>.\<close>

lemma fl_error: "\<bar>fl x - x\<bar> \<le> \<bar>x\<bar> / 2 ^ 53"
proof (cases "x = 0")
  case True
  then show ?thesis by (simp add: fl_def)
next
  case False
  define e where "e = \<lfloor>log 2 \<bar>x\<bar>\<rfloor>"
  define u :: real where "u = power_int 2 (e - 52)"
  have upos: "0 < u" by (simp add: u_def)
  have "real_of_int e \<le> log 2 \<bar>x\<bar>" by (simp add: e_def)
  then have "2 powr real_of_int e \<le> \<bar>x\<bar>" using False by (simp add: le_log_iff)
  then have lo: "power_int 2 e \<le> \<bar>x\<bar>" by (simp add: powr_real_of_int')
  have ue: "u * 2 ^ 52 = power_int 2 e"
    by (simp add: u_def power_int_diff)
  have flx: "fl x = of_int (round_even (x / u)) * u"
    using False by (simp add: fl_def Let_def e_def u_def)
  have "\<bar>of_int (round_even (x / u)) - x / u\<bar> \<le> 1 / 2" by (rule round_even_error)
  then have A: "\<bar>of_int (round_even (x / u)) - x / u\<bar> * u \<le> 1 / 2 * u"
    using upos by (simp add: mult_right_mono)
  have "\<bar>of_int (round_even (x / u)) - x / u\<bar> * u = \<bar>(of_int (round_even (x / u)) - x / u) * u\<bar>"
    using upos by (simp add: abs_mult)
  also have "(of_int (round_even (x / u)) - x / u) * u = of_int (round_even (x / u)) * u - x"
    using upos by (simp add: field_simps)
  finally have B: "\<bar>of_int (round_even (x / u)) - x / u\<bar> * u = \<bar>fl x - x\<bar>"
    unfolding flx .
  from A have "\<bar>fl x - x\<bar> \<le> 1 / 2 * u" unfolding B .
  then have "\<bar>fl x - x\<bar> \<le> u / 2" by simp
  also have "u / 2 = power_int 2 e / 2 ^ 53" using ue by (simp add: field_simps)
  also have "\<dots> \<le> \<bar>x\<bar> / 2 ^ 53" using lo by (simp add: divide_right_mono)
  finally show ?thesis .
qed

text \<open>The roundings that the curl evaluation of \<open>noise_tilt\<close> at the origin makes.\<close>

lemma fl_value_1: "fl (1 / 10000) = 7378697629483821 / 73786976294838206464"
  by (rule fl_eqI [where e = "-14" and m = 7378697629483821]) simp_all

lemma fl_value_2: "fl (1 / 25) = 5764607523034235 / 144115188075855872"
  by (rule fl_eqI [where e = "-5" and m = 5764607523034235]) simp_all

lemma fl_value_3: "fl (7378697629483821 / 36893488147419103232) = 7378697629483821 / 36893488147419103232"
  by (rule fl_eqI [where e = "-13" and m = 7378697629483821]) simp_all

lemma fl_value_4: "fl (7378697629483821 / 73786976294838206464) = 7378697629483821 / 73786976294838206464"
  by (rule fl_eqI [where e = "-14" and m = 7378697629483821]) simp_all

lemma fl_value_5: "fl (42535295865117310856730761611935 / 10633823966279326983230456482242756608) = 2361183241434823 / 590295810358705651712"
  by (rule fl_eqI [where e = "-18" and m = 4722366482869646]) simp_all

lemma fl_value_6: "fl (- (7378697629483821 / 73786976294838206464)) = - (7378697629483821 / 73786976294838206464)"
  by (rule fl_eqI [where e = "-14" and m = "-7378697629483821"]) simp_all

lemma fl_value_7: "fl (- (42535295865117310856730761611935 / 10633823966279326983230456482242756608)) = - (2361183241434823 / 590295810358705651712)"
  by (rule fl_eqI [where e = "-18" and m = "-4722366482869646"]) simp_all

lemma fl_value_8: "fl (2361183241434823 / 37778931862957161709568) = 2361183241434823 / 37778931862957161709568"
  by (rule fl_eqI [where e = "-24" and m = 4722366482869646]) simp_all

lemma fl_value_9: "fl (- (2361183241434823 / 37778931862957161709568)) = - (2361183241434823 / 37778931862957161709568)"
  by (rule fl_eqI [where e = "-24" and m = "-4722366482869646"]) simp_all

lemma fl_value_10: "fl (2361183241434823 / 18889465931478580854784) = 2361183241434823 / 18889465931478580854784"
  by (rule fl_eqI [where e = "-23" and m = 4722366482869646]) simp_all

lemma fl_value_11: "fl (2361183241434823 / 3777893186295716352) = 1441151880758559 / 2305843009213693952"
  by (rule fl_eqI [where e = "-11" and m = 5764607523034236]) simp_all

lemma fl_value_12: "fl (2361183241434823 / 2361183241434822606848) = 2361183241434823 / 2361183241434822606848"
  by (rule fl_eqI [where e = "-20" and m = 4722366482869646]) simp_all

lemma fl_value_13: "fl (- (2361183241434823 / 2361183241434822606848)) = - (2361183241434823 / 2361183241434822606848)"
  by (rule fl_eqI [where e = "-20" and m = "-4722366482869646"]) simp_all

lemma fl_value_14: "fl (2361183241434823 / 1180591620717411303424) = 2361183241434823 / 1180591620717411303424"
  by (rule fl_eqI [where e = "-19" and m = 4722366482869646]) simp_all

lemma fl_value_15: "fl (2361183241434823 / 236118324143482272) = 1441151880758559 / 144115188075855872"
  by (rule fl_eqI [where e = "-7" and m = 5764607523034236]) simp_all

lemma fl_value_16: "fl (- (21617278211378385 / 2305843009213693952)) = - (1351079888211149 / 144115188075855872)"
  by (rule fl_eqI [where e = "-7" and m = "-5404319552844596"]) simp_all

lemma fl_value_17: "fl (1441151880758559 / 144115188075855872) = 1441151880758559 / 144115188075855872"
  by (rule fl_eqI [where e = "-7" and m = 5764607523034236]) simp_all

lemma fl_value_18: "fl (- (1441151880758559 / 2305843009213693952)) = - (1441151880758559 / 2305843009213693952)"
  by (rule fl_eqI [where e = "-11" and m = "-5764607523034236"]) simp_all

lemma fl_value_19: "fl (45035996273705 / 72057594037927936) = 45035996273705 / 72057594037927936"
  by (rule fl_eqI [where e = "-11" and m = 5764607523034240]) simp_all

lemma fl_value_20: "fl (1 / 2305843009213693952) = 1 / 2305843009213693952"
  by (rule fl_eqI [where e = "-61" and m = 4503599627370496]) simp_all

lemmas fl_values = fl_value_1 fl_value_2 fl_value_3 fl_value_4 fl_value_5 fl_value_6 fl_value_7 fl_value_8 fl_value_9 fl_value_10 fl_value_11 fl_value_12 fl_value_13 fl_value_14 fl_value_15 fl_value_16 fl_value_17 fl_value_18 fl_value_19 fl_value_20

lemma differences_double_example:
  "differences_double noise_tilt params_double 0 0 0 =
     (0, 1441151880758559 / 2305843009213693952, 1441151880758559 / 144115188075855872)"
  by (simp add: differences_double_def n_sample_double_def noise_tilt_def params_double_def
      default_params_def epsilon_double_def epsilon_def Let_def fl_zero fl_values)

lemma curlRaw_double_example:
  "curlRaw_double noise_tilt params_double 0 0 0 =
     Vector3 (- (1351079888211149 / 144115188075855872)) (1441151880758559 / 144115188075855872)
       (- (1441151880758559 / 2305843009213693952))"
  by (simp add: curlRaw_double_def differences_double_example fl_zero fl_values)

text \<open>
  C8, antisymmetric recombination, as the code has it: the three components of the raw
  curl vector are the rounded differences of \<open>dx\<close>, \<open>dy\<close> and \<open>dz\<close>, and they add up to
  zero only up to the rounding of the three subtractions: the sum is at most
  \<open>(|dy - dz| + |dz - dx| + |dx - dy|) / 2 ^ 53\<close> in absolute value. In exact arithmetic,
  where no subtraction is rounded, the three components add up to zero.
\<close>

theorem curl_antisymmetric_rounded:
  assumes "differences_double noise3D ps x y z = (dx, dy, dz)"
  shows "\<bar>vx (curlRaw_double noise3D ps x y z) + vy (curlRaw_double noise3D ps x y z)
           + vz (curlRaw_double noise3D ps x y z)\<bar>
         \<le> (\<bar>dy - dz\<bar> + \<bar>dz - dx\<bar> + \<bar>dx - dy\<bar>) / 2 ^ 53
         \<and> vx (curlRaw noise3D ps x y z) + vy (curlRaw noise3D ps x y z)
           + vz (curlRaw noise3D ps x y z) = 0"
proof -
  have v: "curlRaw_double noise3D ps x y z = Vector3 (fl (dy - dz)) (fl (dz - dx)) (fl (dx - dy))"
    using assms by (simp add: curlRaw_double_def)
  have "fl (dy - dz) + fl (dz - dx) + fl (dx - dy)
        = (fl (dy - dz) - (dy - dz)) + (fl (dz - dx) - (dz - dx)) + (fl (dx - dy) - (dx - dy))"
    by simp
  also have "\<bar>\<dots>\<bar> \<le> \<bar>fl (dy - dz) - (dy - dz)\<bar> + \<bar>fl (dz - dx) - (dz - dx)\<bar>
                    + \<bar>fl (dx - dy) - (dx - dy)\<bar>"
    by linarith
  also have "\<dots> \<le> \<bar>dy - dz\<bar> / 2 ^ 53 + \<bar>dz - dx\<bar> / 2 ^ 53 + \<bar>dx - dy\<bar> / 2 ^ 53"
    using fl_error [of "dy - dz"] fl_error [of "dz - dx"] fl_error [of "dx - dy"] by linarith
  finally have rounded: "\<bar>vx (curlRaw_double noise3D ps x y z) + vy (curlRaw_double noise3D ps x y z)
           + vz (curlRaw_double noise3D ps x y z)\<bar>
         \<le> (\<bar>dy - dz\<bar> + \<bar>dz - dx\<bar> + \<bar>dx - dy\<bar>) / 2 ^ 53"
    by (simp add: v add_divide_distrib)
  have exact: "vx (curlRaw noise3D ps x y z) + vy (curlRaw noise3D ps x y z)
           + vz (curlRaw noise3D ps x y z) = 0"
    by (simp add: curlRaw_def Let_def)
  from rounded exact show ?thesis by (rule conjI)
qed

theorem curl_antisymmetric_rounded_witness:
  "differences_double noise_tilt params_double 0 0 0 =
     (0, 1441151880758559 / 2305843009213693952, 1441151880758559 / 144115188075855872)
   \<and> \<bar>vx (curlRaw_double noise_tilt params_double 0 0 0)
        + vy (curlRaw_double noise_tilt params_double 0 0 0)
        + vz (curlRaw_double noise_tilt params_double 0 0 0)\<bar> \<le> 1 / 2 ^ 58"
proof -
  have "(\<bar>1441151880758559 / 2305843009213693952 - 1441151880758559 / 144115188075855872\<bar>
         + \<bar>1441151880758559 / 144115188075855872 - 0\<bar>
         + \<bar>0 - 1441151880758559 / 2305843009213693952\<bar>) / 2 ^ 53 \<le> (1 / 2 ^ 58 :: real)"
    by simp
  with curl_antisymmetric_rounded [OF differences_double_example, THEN conjunct1]
  have "\<bar>vx (curlRaw_double noise_tilt params_double 0 0 0)
        + vy (curlRaw_double noise_tilt params_double 0 0 0)
        + vz (curlRaw_double noise_tilt params_double 0 0 0)\<bar> \<le> 1 / 2 ^ 58"
    by (rule order_trans)
  with differences_double_example show ?thesis by (rule conjI)
qed

text \<open>
  The claim C8 as the spec states it fails in the arithmetic of the code: with the noise
  \<open>b / 64 + c / 4\<close> and the default parameters, the three components of the raw curl
  vector at the origin add up to \<open>1 / 2 ^ 61\<close>, not to zero, both as an exact sum of the three
  doubles and as the sum that double arithmetic gives from left to right.
\<close>

theorem curl_sum_double_counterexample:
  "vx (curlRaw_double noise_tilt params_double 0 0 0)
     + vy (curlRaw_double noise_tilt params_double 0 0 0)
     + vz (curlRaw_double noise_tilt params_double 0 0 0) = 1 / 2 ^ 61
   \<and> fl (fl (vx (curlRaw_double noise_tilt params_double 0 0 0)
              + vy (curlRaw_double noise_tilt params_double 0 0 0))
           + vz (curlRaw_double noise_tilt params_double 0 0 0)) = 1 / 2 ^ 61"
  by (simp add: curlRaw_double_example fl_values)

subsection \<open>Steps of no duration\<close>

text \<open>
  C3, zero-dt no-op: a step with \<open>dt = 0\<close> returns a position within the radius
  unchanged, for every noise and every parameter setting.
\<close>

theorem zero_dt_noop:
  "vlength p \<le> RADIUS \<Longrightarrow> animate_step noise3D ps 0 p = p"
  by (simp add: animate_step_def advance_zero_dt boundary_force_def)

theorem zero_dt_noop_witness:
  "vlength (Vector3 10 0 0) \<le> RADIUS
   \<and> animate_step noise_x default_params 0 (Vector3 10 0 0) = Vector3 10 0 0"
proof -
  have inside: "vlength (Vector3 10 0 0) \<le> RADIUS"
    by (simp add: vlength_axis RADIUS_def)
  from inside zero_dt_noop [OF inside] show ?thesis by simp
qed

text \<open>
  C10, zero-dt clamp outside the domain: a step with \<open>dt = 0\<close> from a position outside
  the radius does not return the position: velocity and soft push vanish, the hard clamp
  fires, and the result is the position rescaled to length \<open>RADIUS - 0.001\<close>.
\<close>

theorem zero_dt_clamp_outside:
  assumes "vlength p > RADIUS"
  shows "animate_step noise3D ps 0 p = setLength p (RADIUS - 0.001)
         \<and> vlength (animate_step noise3D ps 0 p) = RADIUS - 0.001
         \<and> animate_step noise3D ps 0 p \<noteq> p"
proof -
  have step: "animate_step noise3D ps 0 p = setLength p (RADIUS - 0.001)"
    using assms
    by (simp add: animate_step_def advance_zero_dt boundary_force_def Let_def soft_push_zero_dt)
  from assms have "vlength p \<noteq> 0" by (simp add: RADIUS_def)
  then have len: "vlength (setLength p (RADIUS - 0.001)) = RADIUS - 0.001"
    by (simp add: vlength_setLength RADIUS_def)
  from len assms have "setLength p (RADIUS - 0.001) \<noteq> p" by auto
  with step len show ?thesis by simp
qed

theorem zero_dt_clamp_outside_witness:
  "vlength (Vector3 100 0 0) > RADIUS
   \<and> animate_step noise_x default_params 0 (Vector3 100 0 0) = Vector3 49.999 0 0"
proof -
  have outside: "vlength (Vector3 100 0 0) > RADIUS"
    by (simp add: vlength_axis RADIUS_def)
  have "setLength (Vector3 100 0 0) (RADIUS - 0.001) = Vector3 49.999 0 0"
    by (simp add: setLength_def normalize_vec_axis multiplyScalar_def RADIUS_def)
  with outside zero_dt_clamp_outside [OF outside, of noise_x default_params]
  show ?thesis by simp
qed

subsection \<open>Boundary correction\<close>

text \<open>
  C4, boundary correction at the concrete case: with \<open>RADIUS = 50\<close>, the default
  parameters (speed 4.0, boundary strength 4.0), \<open>dt = 0.016\<close> and the position
  \<open>(100, 0, 0)\<close>, the position after one step is at distance less than 100 and at most
  \<open>50 + 1e-6\<close> from the origin, whatever the noise is; and with these parameters the
  soft push moves every position outside the radius strictly closer to the origin.
\<close>

theorem boundary_correction_concrete:
  "vlength (animate_step noise3D default_params 0.016 (Vector3 100 0 0)) < 100
   \<and> vlength (animate_step noise3D default_params 0.016 (Vector3 100 0 0)) \<le> 50 + 1 / 10 ^ 6
   \<and> (vlength q > RADIUS \<longrightarrow> vlength (soft_push default_params 0.016 q) < vlength q)"
proof -
  have "vlength (animate_step noise3D default_params 0.016 (Vector3 100 0 0)) \<le> RADIUS"
    by (simp add: animate_step_def vlength_boundary_force)
  then have bound: "vlength (animate_step noise3D default_params 0.016 (Vector3 100 0 0)) \<le> 50"
    by (simp add: RADIUS_def)
  have inward: "vlength (soft_push default_params 0.016 q) < vlength q" if "vlength q > RADIUS"
  proof -
    from that have "vlength q \<noteq> 0" by (simp add: RADIUS_def)
    then have "vlength (soft_push default_params 0.016 q)
               = \<bar>vlength q - (vlength q - RADIUS) * boundary default_params * 0.016\<bar>"
      by (rule vlength_soft_push)
    with that show ?thesis by (simp add: default_params_def RADIUS_def abs_if)
  qed
  from bound inward show ?thesis by simp
qed

theorem boundary_correction_concrete_witness:
  "vlength (Vector3 100 0 0) > RADIUS
   \<and> vlength (soft_push default_params 0.016 (Vector3 100 0 0)) < vlength (Vector3 100 0 0)
   \<and> vlength (animate_step noise_zero default_params 0.016 (Vector3 100 0 0)) < 100"
proof -
  have outside: "vlength (Vector3 100 0 0) > RADIUS"
    by (simp add: vlength_axis RADIUS_def)
  from outside boundary_correction_concrete [of noise_zero "Vector3 100 0 0"]
  show ?thesis by simp
qed

subsection \<open>Rejection sampling\<close>

lemma sample_point_accepts:
  "accepted rnd (k + 3 * m) \<Longrightarrow>
   \<exists>j \<le> m. sample_point rnd k = Some (candidate rnd (k + 3 * j), k + 3 * j + 3)"
proof (induction m arbitrary: k)
  case 0
  then show ?case
    by (subst sample_point.simps) (simp add: accepted_def)
next
  case (Suc m)
  show ?case
  proof (cases "accepted rnd k")
    case True
    then have "sample_point rnd k = Some (candidate rnd k, k + 3)"
      by (subst sample_point.simps) (simp add: accepted_def)
    then show ?thesis by (intro exI [of _ 0]) simp
  next
    case False
    from Suc.prems have "accepted rnd (k + 3 + 3 * m)" by (simp add: algebra_simps)
    from Suc.IH [OF this] obtain j where j: "j \<le> m"
      "sample_point rnd (k + 3) = Some (candidate rnd (k + 3 + 3 * j), k + 3 + 3 * j + 3)"
      by blast
    from False have "sample_point rnd k = sample_point rnd (k + 3)"
      by (subst sample_point.simps) (simp add: accepted_def)
    with j show ?thesis
      by (intro exI [of _ "Suc j"]) (simp add: algebra_simps)
  qed
qed

lemma sample_point_fair:
  assumes "fair rnd"
  shows "\<exists>p k1. sample_point rnd k = Some (p, k1)"
proof -
  from assms obtain m where "accepted rnd (k + 3 * m)"
    unfolding fair_def by blast
  from sample_point_accepts [OF this] show ?thesis by blast
qed

lemma sample_point_inside_aux:
  assumes "sample_point rnd k = Some y"
  shows "vlength (fst y) \<le> RADIUS"
proof (rule sample_point.raw_induct [where P = "\<lambda>rnd k y. vlength (fst y) \<le> RADIUS"])
  show "sample_point rnd k = Some y" by fact
next
  fix sp :: "random \<Rightarrow> nat \<Rightarrow> (vec3 \<times> nat) option" and rnd k y
  assume IH: "\<And>rnd k y. sp rnd k = Some y \<Longrightarrow> vlength (fst y) \<le> RADIUS"
    and eq: "(let p = candidate rnd k
              in if RADIUS < vlength p then sp rnd (k + 3) else Some (p, k + 3)) = Some y"
  show "vlength (fst y) \<le> RADIUS"
  proof (cases "vlength (candidate rnd k) > RADIUS")
    case True
    with eq have "sp rnd (k + 3) = Some y" by (simp add: Let_def)
    then show ?thesis by (rule IH)
  next
    case False
    with eq show ?thesis by (auto simp: Let_def)
  qed
qed

lemma sample_point_inside: "sample_point rnd k = Some (p, k1) \<Longrightarrow> vlength p \<le> RADIUS"
  using sample_point_inside_aux [of rnd k "(p, k1)"] by simp

lemma candidate_rnd_half: "candidate rnd_half k = Vector3 0 0 0"
  by (simp add: candidate_def rnd_half_def)

lemma fair_rnd_half: "fair rnd_half"
  by (simp add: fair_def accepted_def candidate_rnd_half vlength_axis RADIUS_def)

lemma sample_point_rnd_half: "sample_point rnd_half k = Some (Vector3 0 0 0, k + 3)"
  by (subst sample_point.simps) (simp add: candidate_rnd_half vlength_axis RADIUS_def)

subsection \<open>Colours\<close>

lemma clampScalar_range:
  "0 \<le> cr (clampScalar c 0 1) \<and> cr (clampScalar c 0 1) \<le> 1 \<and>
   0 \<le> cg (clampScalar c 0 1) \<and> cg (clampScalar c 0 1) \<le> 1 \<and>
   0 \<le> cb (clampScalar c 0 1) \<and> cb (clampScalar c 0 1) \<le> 1"
  by (simp add: clampScalar_def)

lemma particle_color_range:
  "0 \<le> cr (particle_color rnd k p) \<and> cr (particle_color rnd k p) \<le> 1 \<and>
   0 \<le> cg (particle_color rnd k p) \<and> cg (particle_color rnd k p) \<le> 1 \<and>
   0 \<le> cb (particle_color rnd k p) \<and> cb (particle_color rnd k p) \<le> 1"
  unfolding particle_color_def Let_def by (rule clampScalar_range)

lemma particle_color_rnd_half: "particle_color rnd_half k (Vector3 0 0 0) = Color 1 1 1"
  by (simp add: particle_color_def Let_def vlength_axis lerp_def COLOR_CENTER_def COLOR_EDGE_def
      rnd_half_def clampScalar_def)

subsection \<open>The loop of the reset\<close>

lemma init_loop_partial:
  "init_loop rnd ps i k st = Some st' \<Longrightarrow>
     length (positions st') = length (positions st) + nat (count ps - i) \<and>
     length (instanceColor st') = length (instanceColor st) + nat (count ps - i) \<and>
     (\<forall>p \<in> set (positions st'). p \<in> set (positions st) \<or> vlength p \<le> RADIUS) \<and>
     (\<forall>c \<in> set (instanceColor st'). c \<in> set (instanceColor st) \<or>
        (0 \<le> cr c \<and> cr c \<le> 1 \<and> 0 \<le> cg c \<and> cg c \<le> 1 \<and> 0 \<le> cb c \<and> cb c \<le> 1))"
proof (induction rnd ps i k st rule: init_loop.induct)
  case (1 rnd ps i k st)
  show ?case
  proof (cases "i < count ps")
    case False
    with "1.prems" show ?thesis by (simp add: init_loop.simps [of rnd ps i k st])
  next
    case True
    with "1.prems" obtain p k1 where sp: "sample_point rnd k = Some (p, k1)"
      and rec: "init_loop rnd ps (i + 1) (k1 + 3)
                  (st\<lparr>positions := positions st @ [p],
                      instanceColor := instanceColor st @ [particle_color rnd k1 p]\<rparr>) = Some st'"
      by (auto simp: init_loop.simps [of rnd ps i k st] split: option.splits)
    from "1.IH" [OF True sp refl rec] True
      sample_point_inside [OF sp] particle_color_range [of rnd k1 p]
    show ?thesis by (auto simp: nat_diff_distrib')
  qed
qed

lemma init_loop_total:
  assumes "fair rnd"
  shows "\<exists>st'. init_loop rnd ps i k st = Some st'"
  using assms
proof (induction rnd ps i k st rule: init_loop.induct)
  case (1 rnd ps i k st)
  show ?case
  proof (cases "i < count ps")
    case False
    then show ?thesis by (simp add: init_loop.simps [of rnd ps i k st])
  next
    case True
    from sample_point_fair [OF "1.prems", of k]
    obtain p k1 where sp: "sample_point rnd k = Some (p, k1)"
      by blast
    from "1.IH" [OF True sp refl "1.prems"] True sp show ?thesis
      by (simp add: init_loop.simps [of rnd ps i k st])
  qed
qed

lemma initParticles_one:
  "initParticles rnd_half params_one =
     Some \<lparr>positions = [Vector3 0 0 0], instanceColor = [Color 1 1 1]\<rparr>"
proof -
  have c: "count params_one = 1" by (simp add: params_one_def)
  show ?thesis
    unfolding initParticles_def
    by (subst init_loop.simps, simp add: c sample_point_rnd_half particle_color_rnd_half)
       (subst init_loop.simps, simp add: c)
qed



subsection \<open>Reset\<close>




text \<open>
  C6, reset replaces the count exactly: for a count that is not negative (so for every
  valid count), and a random source that lets every rejection loop end, the reset returns
  a collection of exactly \<open>count\<close> positions, each at distance at most \<open>RADIUS\<close> from
  the origin.
\<close>

theorem reset_replaces_count:
  assumes "fair rnd" and "0 \<le> count ps"
  shows "\<exists>st. initParticles rnd ps = Some st \<and> int (length (positions st)) = count ps
              \<and> (\<forall>p \<in> set (positions st). vlength p \<le> RADIUS)"
proof -
  from init_loop_total [OF assms(1)] obtain st
    where st: "init_loop rnd ps 0 0 \<lparr>positions = [], instanceColor = []\<rparr> = Some st"
    by blast
  from init_loop_partial [OF st] assms(2) st show ?thesis
    by (simp add: initParticles_def)
qed

theorem reset_replaces_count_witness:
  "fair rnd_half \<and> 0 \<le> count params_5000 \<and>
   (\<exists>st. initParticles rnd_half params_5000 = Some st \<and> length (positions st) = 5000)"
proof -
  have c: "count params_5000 = 5000" by (simp add: params_5000_def)
  then have nonneg: "0 \<le> count params_5000" by simp
  from reset_replaces_count [OF fair_rnd_half nonneg] c fair_rnd_half show ?thesis
    by auto
qed

text \<open>
  C9, colour range: every colour that a reset hands to \<open>setColorAt\<close> has its red, green
  and blue channels in \<open>[0, 1]\<close>.
\<close>

theorem color_range:
  assumes "initParticles rnd ps = Some st" and "c \<in> set (instanceColor st)"
  shows "0 \<le> cr c \<and> cr c \<le> 1 \<and> 0 \<le> cg c \<and> cg c \<le> 1 \<and> 0 \<le> cb c \<and> cb c \<le> 1"
proof -
  from assms(1)
  have "init_loop rnd ps 0 0 \<lparr>positions = [], instanceColor = []\<rparr> = Some st"
    by (simp add: initParticles_def)
  from init_loop_partial [OF this] assms(2) show ?thesis by simp
qed

theorem color_range_witness:
  "initParticles rnd_half params_one =
     Some \<lparr>positions = [Vector3 0 0 0], instanceColor = [Color 1 1 1]\<rparr>
   \<and> Color 1 1 1 \<in> set [Color 1 1 1]
   \<and> 0 \<le> cr (Color 1 1 1) \<and> cr (Color 1 1 1) \<le> 1"
  using color_range [OF initParticles_one, of "Color 1 1 1"]
  by (simp add: initParticles_one)


end
